theory Spec2Isabelle
  imports Main "HOL-Library.Word" "HOL-Library.Multiset" "HOL-Library.AList"
begin

section \<open>Data model\<close>

text \<open>
  The model of \<^verbatim>\<open>internal/provider_fm/string.go\<close>. Go strings are byte sequences
  (\<open>string\<close>), \<^verbatim>\<open>int64\<close> attribute values are \<open>64 word\<close> read with \<open>sint\<close>,
  slice lengths and indices are \<open>nat\<close>.
\<close>

type_synonym int64 = "64 word"
type_synonym byte = "8 word"

text \<open>The resource model filled from the plan and written to the state.\<close>

record String_model =
  ID :: string
  Keepers :: "(string \<times> string) list"
  Length :: int64
  Special :: bool
  Upper :: bool
  Lower :: bool
  Number :: bool
  MinNumeric :: int64
  MinUpper :: int64
  MinLower :: int64
  MinSpecial :: int64
  OverrideSpecial :: string
  Result :: string

text \<open>
  A diagnostic added with \<^verbatim>\<open>AddError(summary, detail)\<close>; the response of a create
  call holds the diagnostics and the state, if one was set.
\<close>

datatype diagnostic = Error_diag string string

record response =
  Diagnostics :: "diagnostic list"
  State :: "String_model option"

text \<open>
  An error value returned by the random source, with its message, and the run-time
  panics the code can reach: \<^verbatim>\<open>make\<close> with a negative length or capacity,
  \<^verbatim>\<open>rand.Int\<close> with a bound that is not positive, and a swap outside the slice.
\<close>

datatype error = EntropyFailure string

datatype panic = Makeslice_len_out_of_range | Makeslice_cap_out_of_range
  | Rand_Int_argument_not_positive | Swap_index_out_of_range

section \<open>The environment of a call\<close>

text \<open>
  What a call of \<^verbatim>\<open>createString\<close> takes from outside the program:
  \<^item> \<open>rand_Int k\<close>: the outcome of the \<open>k\<close>-th call of \<^verbatim>\<open>rand.Int(rand.Reader, max)\<close>,
    an error or a number \<open>r\<close>; the call then returns \<open>r mod max\<close>, so every value of
    \<open>[0, max)\<close> is a possible outcome;
  \<^item> \<open>rand_Read\<close>: the outcome of \<^verbatim>\<open>rand.Read(order)\<close>, an error or the bytes by index;
  \<^item> \<open>range_picks\<close>: the order in which \<^verbatim>\<open>range\<close> visits the entries of a map,
    which Go leaves unspecified (see \<open>range_order\<close>);
  \<^item> \<open>sort_swaps\<close>: the swaps \<^verbatim>\<open>sort.Slice\<close> makes on a slice of \<open>n\<close> elements with a
    given \<^verbatim>\<open>less\<close>. The library function reaches the slice only through
    \<^verbatim>\<open>less(i, j)\<close> and \<^verbatim>\<open>swap(i, j)\<close>, so its effect is a list of swaps.
\<close>

type_synonym sorter = "nat \<Rightarrow> (nat \<Rightarrow> nat \<Rightarrow> bool) \<Rightarrow> (nat \<times> nat) list"

record env =
  rand_Int :: "nat \<Rightarrow> error + nat"
  rand_Read :: "error + (nat \<Rightarrow> byte)"
  range_picks :: "nat list"
  sort_swaps :: sorter

section \<open>generateRandomBytes\<close>

text \<open>
  The loop \<^verbatim>\<open>for i := range bytes\<close>: \<open>n\<close> bytes are still to be filled and \<open>k\<close> calls
  of \<^verbatim>\<open>rand.Int\<close> were made before. \<^verbatim>\<open>rand.Int\<close> panics when the length of the
  character set is 0; an error ends the loop at once.
\<close>

fun draw :: "env \<Rightarrow> string \<Rightarrow> nat \<Rightarrow> nat \<Rightarrow> panic + (error + string)" where
  "draw e charSet 0 k = Inr (Inr [])"
| "draw e charSet (Suc n) k =
     (if length charSet = 0 then Inl Rand_Int_argument_not_positive
      else case rand_Int e k of
        Inl err \<Rightarrow> Inr (Inl err)
      | Inr r \<Rightarrow>
          (case draw e charSet n (Suc k) of
             Inr (Inr bytes) \<Rightarrow> Inr (Inr (charSet ! (r mod length charSet) # bytes))
           | other \<Rightarrow> other))"

text \<open>\<^verbatim>\<open>make([]byte, length)\<close> panics on a negative length.\<close>

definition generateRandomBytes ::
  "env \<Rightarrow> nat \<Rightarrow> string \<Rightarrow> int \<Rightarrow> panic + (error + string)" where
  "generateRandomBytes e k charSet len =
     (if len < 0 then Inl Makeslice_len_out_of_range else draw e charSet (nat len) k)"

section \<open>Maps, ranging over a map, and sort.Slice\<close>

text \<open>
  A map literal assigns its entries in the order they are written, so of two entries
  with equal keys the later one stays. The map is kept as a list of entries with
  distinct keys.
\<close>

definition map_literal :: "('k \<times> 'v) list \<Rightarrow> ('k \<times> 'v) list" where
  "map_literal entries = fold (\<lambda>(k, v) m. AList.update k v m) entries []"

text \<open>
  \<^verbatim>\<open>for k, v := range m\<close> visits every entry once, in an order Go does not fix. The
  picks choose it: each pick takes one of the entries not yet visited, and when the picks
  run out the remaining entries follow as they are. Every order is the outcome of some
  list of picks.
\<close>

primrec range_order :: "nat list \<Rightarrow> 'a list \<Rightarrow> 'a list" where
  "range_order [] xs = xs"
| "range_order (p # ps) xs =
     (if xs = [] then []
      else let i = p mod length xs
           in xs ! i # range_order ps (take i xs @ drop (Suc i) xs))"

text \<open>
  \<^verbatim>\<open>sort.Slice(x, less)\<close> applies to \<open>x\<close> the swaps its algorithm chooses; the swapper
  panics on an index outside the slice.
\<close>

fun swap_all :: "(nat \<times> nat) list \<Rightarrow> 'a list \<Rightarrow> panic + 'a list" where
  "swap_all [] xs = Inr xs"
| "swap_all ((i, j) # ps) xs =
     (if i < length xs \<and> j < length xs then swap_all ps (xs[i := xs ! j, j := xs ! i])
      else Inl Swap_index_out_of_range)"

definition sort_Slice :: "env \<Rightarrow> 'a list \<Rightarrow> (nat \<Rightarrow> nat \<Rightarrow> bool) \<Rightarrow> panic + 'a list" where
  "sort_Slice e x lessf = swap_all (sort_swaps e (length x) lessf) x"

text \<open>
  The algorithm of Go's package \<^verbatim>\<open>sort\<close> on a range of at most 12 elements
  (\<^verbatim>\<open>insertionSort_func\<close>; releases before 1.19 run it unchanged on at most 6):
  \<^verbatim>\<open>
  for i := a + 1; i < b; i++ {
      for j := i; j > a && data.Less(j, j-1); j-- {
          data.Swap(j, j-1)
      }
  }
  \<close>
  \<open>insertion_inner lessf a j\<close> is the inner loop from \<open>j\<close> downwards. The \<^verbatim>\<open>less\<close> of
  \<^verbatim>\<open>createString\<close> reads a slice that no swap changes, so the swaps are a function of
  \<^verbatim>\<open>less\<close> alone.
\<close>

fun insertion_inner :: "(nat \<Rightarrow> nat \<Rightarrow> bool) \<Rightarrow> nat \<Rightarrow> nat \<Rightarrow> (nat \<times> nat) list" where
  "insertion_inner lessf a 0 = []"
| "insertion_inner lessf a (Suc j) =
     (if Suc j > a \<and> lessf (Suc j) j then (Suc j, j) # insertion_inner lessf a j else [])"

definition insertionSort_func :: "(nat \<Rightarrow> nat \<Rightarrow> bool) \<Rightarrow> nat \<Rightarrow> nat \<Rightarrow> (nat \<times> nat) list" where
  "insertionSort_func lessf a b = concat (map (insertion_inner lessf a) [a + 1 ..< b])"

definition insertion_sorter :: sorter where
  "insertion_sorter n lessf = insertionSort_func lessf 0 n"

text \<open>A sorter that only swaps positions of the slice it is given.\<close>

definition sorter_in_range :: "sorter \<Rightarrow> bool" where
  "sorter_in_range srt = (\<forall>n lessf. \<forall>(i, j) \<in> set (srt n lessf). i < n \<and> j < n)"

section \<open>Formatting\<close>

text \<open>\<^verbatim>\<open>fmt.Sprintf("%d", v)\<close> for an integer.\<close>

fun decimal :: "nat \<Rightarrow> string" where
  "decimal n =
     (if n < 10 then [''0123456789'' ! n]
      else decimal (n div 10) @ [''0123456789'' ! (n mod 10)])"

definition Sprintf_d :: "int \<Rightarrow> string" where
  "Sprintf_d v = (if v < 0 then CHR ''-'' # decimal (nat (- v)) else decimal (nat v))"

section \<open>The validators\<close>

definition lengthValidator_Validate :: "int64 \<Rightarrow> diagnostic list" where
  "lengthValidator_Validate t =
     (if sint t < 1 then
        [Error_diag (''expected length to be at least 1, got '' @ Sprintf_d (sint t))
                    (''expected length to be at least 1, got '' @ Sprintf_d (sint t))]
      else [])"

definition validateLength_message :: "int64 \<Rightarrow> int64 \<Rightarrow> string" where
  "validateLength_message len sum_min =
     ''length ('' @ Sprintf_d (sint len)
       @ '') must be >= min_upper + min_lower + min_numeric + min_special (''
       @ Sprintf_d (sint sum_min) @ '')''"

definition validateLength :: "String_model \<Rightarrow> diagnostic list" where
  "validateLength config =
     (let len = Length config;
          minUpper = MinUpper config;
          minLower = MinLower config;
          minNumeric = MinNumeric config;
          minSpecial = MinSpecial config
      in if sint len < sint (minUpper + minLower + minNumeric + minSpecial) then
           [Error_diag (validateLength_message len (minUpper + minLower + minNumeric + minSpecial))
                       (validateLength_message len (minUpper + minLower + minNumeric + minSpecial))]
         else [])"

section \<open>createString\<close>

definition numChars :: string where
  "numChars = ''0123456789''"

definition lowerChars :: string where
  "lowerChars = ''abcdefghijklmnopqrstuvwxyz''"

definition upperChars :: string where
  "upperChars = ''ABCDEFGHIJKLMNOPQRSTUVWXYZ''"

definition defaultSpecialChars :: string where
  "defaultSpecialChars = ''!@#$%&*()-_=+[]{}<>:?''"

text \<open>The special characters in use: \<^verbatim>\<open>if overrideSpecial != "" { specialChars = overrideSpecial }\<close>.\<close>

definition specialChars :: "String_model \<Rightarrow> string" where
  "specialChars plan =
     (if OverrideSpecial plan \<noteq> [] then OverrideSpecial plan else defaultSpecialChars)"

text \<open>The characters of the classes that are switched on, for the draws after the minimums.\<close>

definition chars :: "String_model \<Rightarrow> string" where
  "chars plan =
     (if Upper plan then upperChars else []) @
     (if Lower plan then lowerChars else []) @
     (if Number plan then numChars else []) @
     (if Special plan then specialChars plan else [])"

text \<open>The entries of the literal \<^verbatim>\<open>minMapping\<close>, as written, and the map they make.\<close>

definition minMapping_entries :: "String_model \<Rightarrow> (string \<times> int64) list" where
  "minMapping_entries plan =
     [(numChars, MinNumeric plan),
      (lowerChars, MinLower plan),
      (upperChars, MinUpper plan),
      (specialChars plan, MinSpecial plan)]"

definition minMapping :: "String_model \<Rightarrow> (string \<times> int64) list" where
  "minMapping plan = map_literal (minMapping_entries plan)"

text \<open>
  The loop over \<^verbatim>\<open>minMapping\<close>. Every byte of \<open>result\<close> came from one call of
  \<^verbatim>\<open>rand.Int\<close>, so \<open>length result\<close> calls were made before the next draw.
\<close>

fun min_loop :: "env \<Rightarrow> (string \<times> int64) list \<Rightarrow> string \<Rightarrow> panic + (error + string)" where
  "min_loop e [] result = Inr (Inr result)"
| "min_loop e ((k, v) # kvs) result =
     (case generateRandomBytes e (length result) k (sint v) of
        Inl p \<Rightarrow> Inl p
      | Inr (Inl err) \<Rightarrow> Inr (Inl err)
      | Inr (Inr s) \<Rightarrow> min_loop e kvs (result @ s))"

text \<open>
  \<^verbatim>\<open>rand.Read(order)\<close> fills the slice or returns an error; on an empty slice it reads
  nothing and returns no error.
\<close>

definition read_order :: "env \<Rightarrow> nat \<Rightarrow> error + byte list" where
  "read_order e n =
     (if n = 0 then Inr []
      else case rand_Read e of Inl err \<Rightarrow> Inl err | Inr f \<Rightarrow> Inr (map f [0 ..< n]))"

definition error_response :: "error \<Rightarrow> response" where
  "error_response err =
     (case err of EntropyFailure msg \<Rightarrow>
        \<lparr>Diagnostics = [Error_diag ''error generating random bytes''
                                     (''error generating random bytes: '' @ msg)],
         State = None\<rparr>)"

text \<open>
  \<^verbatim>\<open>createString\<close>, from the decoded plan to the response; \<open>Inl\<close> is a panic. Reading the
  plan and writing the state are the framework's and are taken to succeed, and memory
  is taken to suffice for every slice. \<^verbatim>\<open>make([]byte, 0, length)\<close> panics on a negative
  capacity. The difference \<^verbatim>\<open>length-int64(len(result))\<close> is taken over the integers: a
  slice has fewer than \<open>2 ^ 63\<close> elements, and a difference that wraps is negative
  before it wraps and too large for \<^verbatim>\<open>make\<close> after.
\<close>

definition createString :: "env \<Rightarrow> String_model \<Rightarrow> bool \<Rightarrow> panic + response" where
  "createString e plan sensitive =
     (if sint (Length plan) < 0 then Inl Makeslice_cap_out_of_range
      else case min_loop e (range_order (range_picks e) (minMapping plan)) [] of
        Inl p \<Rightarrow> Inl p
      | Inr (Inl err) \<Rightarrow> Inr (error_response err)
      | Inr (Inr result) \<Rightarrow>
          (case generateRandomBytes e (length result) (chars plan)
                  (sint (Length plan) - int (length result)) of
             Inl p \<Rightarrow> Inl p
           | Inr (Inl err) \<Rightarrow> Inr (error_response err)
           | Inr (Inr s) \<Rightarrow>
               (case read_order e (length (result @ s)) of
                  Inl err \<Rightarrow> Inr (error_response err)
                | Inr order \<Rightarrow>
                    (case sort_Slice e (result @ s) (\<lambda>i j. order ! i < order ! j) of
                       Inl p \<Rightarrow> Inl p
                     | Inr sorted_result \<Rightarrow>
                         Inr \<lparr>Diagnostics = [],
                              State = Some
                                \<lparr>ID = (if sensitive then ''none'' else sorted_result),
                                 Keepers = Keepers plan,
                                 Length = Length plan,
                                 Special = Special plan,
                                 Upper = Upper plan,
                                 Lower = Lower plan,
                                 Number = Number plan,
                                 MinNumeric = MinNumeric plan,
                                 MinUpper = MinUpper plan,
                                 MinLower = MinLower plan,
                                 MinSpecial = MinSpecial plan,
                                 OverrideSpecial = OverrideSpecial plan,
                                 Result = sorted_result\<rparr>\<rparr>))))"

section \<open>Notions used in the statements\<close>

text \<open>The generated string of a call, when it returned and set a state.\<close>

definition generated :: "panic + response \<Rightarrow> string option" where
  "generated out = (case out of Inl p \<Rightarrow> None | Inr resp \<Rightarrow> map_option Result (State resp))"

text \<open>
  The buffer of \<^verbatim>\<open>createString\<close> before the reordering: the empty slice of capacity
  \<open>Length\<close>, the draws for the minimums, then the draws from \<open>chars\<close>.
\<close>

definition buffer :: "env \<Rightarrow> String_model \<Rightarrow> panic + (error + string)" where
  "buffer e plan =
     (if sint (Length plan) < 0 then Inl Makeslice_cap_out_of_range
      else case min_loop e (range_order (range_picks e) (minMapping plan)) [] of
        Inr (Inr result) \<Rightarrow>
          (case generateRandomBytes e (length result) (chars plan)
                  (sint (Length plan) - int (length result)) of
             Inr (Inr s) \<Rightarrow> Inr (Inr (result @ s))
           | other \<Rightarrow> other)
      | other \<Rightarrow> other)"

text \<open>How many bytes of a string belong to a character set, and how many do not.\<close>

definition count_in :: "string \<Rightarrow> string \<Rightarrow> nat" where
  "count_in charSet s = length (filter (\<lambda>c. c \<in> set charSet) s)"

definition count_outside :: "string \<Rightarrow> string \<Rightarrow> nat" where
  "count_outside charSet s = length (filter (\<lambda>c. c \<notin> set charSet) s)"

text \<open>The special characters in use are none of the three built-in sets.\<close>

definition special_distinct :: "String_model \<Rightarrow> bool" where
  "special_distinct plan =
     (specialChars plan \<noteq> numChars \<and> specialChars plan \<noteq> lowerChars
      \<and> specialChars plan \<noteq> upperChars)"

text \<open>The sum of the four minimums, over the integers.\<close>

definition sum_minimums :: "String_model \<Rightarrow> int" where
  "sum_minimums plan =
     sint (MinUpper plan) + sint (MinLower plan) + sint (MinNumeric plan)
       + sint (MinSpecial plan)"

text \<open>
  The reordering in the words of the specification: the bytes of the buffer, each with
  its own key, in ascending order of the keys, bytes with equal keys in their order in
  the buffer.
\<close>

definition stable_reorder_by_key :: "byte list \<Rightarrow> string \<Rightarrow> string" where
  "stable_reorder_by_key order buf = map snd (sort_key fst (zip order buf))"

section \<open>Concrete calls\<close>

text \<open>
  An environment whose random source always answers 0, so that every draw takes the
  first byte of its character set, and one whose \<open>k\<close>-th draw answers \<open>k\<close> and whose order
  keys are 1, 2, 0. Both range over the map in the order of its entries and reorder as
  Go's insertion sort does.
\<close>

definition env_first :: env where
  "env_first =
     \<lparr>rand_Int = (\<lambda>k. Inr 0), rand_Read = Inr (\<lambda>i. 0), range_picks = [],
      sort_swaps = insertion_sorter\<rparr>"

definition env_count :: env where
  "env_count =
     \<lparr>rand_Int = (\<lambda>k. Inr k),
      rand_Read = Inr (\<lambda>i. if i = 0 then 1 else if i = 1 then 2 else 0),
      range_picks = [], sort_swaps = insertion_sorter\<rparr>"

text \<open>The plan with every class switched on, no minimum, no override, and length 4.\<close>

definition plan_default :: String_model where
  "plan_default =
     \<lparr>ID = [], Keepers = [], Length = 4, Special = True, Upper = True, Lower = True,
      Number = True, MinNumeric = 0, MinUpper = 0, MinLower = 0, MinSpecial = 0,
      OverrideSpecial = [], Result = []\<rparr>"

text \<open>Digits as the special characters, three digits asked for, upper case also on.\<close>

definition plan_collision :: String_model where
  "plan_collision =
     plan_default\<lparr>Lower := False, MinNumeric := 3, OverrideSpecial := ''0123456789''\<rparr>"


text \<open>Every class switched off, length 1.\<close>

definition plan_no_class :: String_model where
  "plan_no_class =
     plan_default\<lparr>Length := 1, Special := False, Upper := False, Lower := False,
       Number := False\<rparr>"

text \<open>Only the special class, with the empty override, length 1.\<close>

definition plan_special_only :: String_model where
  "plan_special_only =
     plan_default\<lparr>Length := 1, Upper := False, Lower := False, Number := False\<rparr>"

text \<open>Every class on, one special character asked for, the override \<^verbatim>\<open>xy\<close>, length 2.\<close>

definition plan_override :: String_model where
  "plan_override = plan_default\<lparr>Length := 2, MinSpecial := 1, OverrideSpecial := ''xy''\<rparr>"

text \<open>Only digits, length 3.\<close>

definition plan_digits :: String_model where
  "plan_digits =
     plan_default\<lparr>Length := 3, Special := False, Upper := False, Lower := False\<rparr>"

text \<open>Upper case switched off with a minimum of 1, and the override \<^verbatim>\<open>A\<close>, length 1.\<close>

definition plan_overlap :: String_model where
  "plan_overlap =
     plan_default\<lparr>Length := 1, Upper := False, Lower := False, Number := False,
       MinUpper := 1, OverrideSpecial := ''A''\<rparr>"

text \<open>Upper case switched off with a minimum of 2, lower case on, length 3.\<close>

definition plan_disabled_upper :: String_model where
  "plan_disabled_upper =
     plan_default\<lparr>Length := 3, Special := False, Upper := False, Number := False,
       MinUpper := 2\<rparr>"

text \<open>Length 0, no minimum.\<close>

definition plan_empty :: String_model where
  "plan_empty = plan_default\<lparr>Length := 0\<rparr>"

section \<open>Properties of the parts\<close>

text \<open>A draw that succeeds has the length asked for and takes its bytes from the character set.\<close>

lemma draw_Inr:
  "draw e cs n k = Inr (Inr bs) \<Longrightarrow> length bs = n \<and> set bs \<subseteq> set cs"
proof (induction n arbitrary: k bs)
  case 0
  then show ?case by simp
next
  case (Suc n)
  from Suc.prems have ne: "cs \<noteq> []"
    by (auto split: if_splits)
  from Suc.prems ne obtain r where r: "rand_Int e k = Inr r"
    by (auto split: sum.splits)
  from Suc.prems ne r obtain bs' where
    bs': "draw e cs n (Suc k) = Inr (Inr bs')" and bs: "bs = cs ! (r mod length cs) # bs'"
    by (auto split: sum.splits)
  from Suc.IH [OF bs'] have "length bs' = n" and "set bs' \<subseteq> set cs"
    by simp_all
  moreover from ne have "cs ! (r mod length cs) \<in> set cs"
    by simp
  ultimately show ?case
    using bs by simp
qed

lemma generateRandomBytes_Inr:
  assumes "generateRandomBytes e k cs len = Inr (Inr bs)"
  shows "0 \<le> len" and "int (length bs) = len" and "set bs \<subseteq> set cs"
proof -
  from assms have nonneg: "0 \<le> len" and d: "draw e cs (nat len) k = Inr (Inr bs)"
    by (auto simp: generateRandomBytes_def split: if_splits)
  from draw_Inr [OF d] nonneg show "0 \<le> len" and "int (length bs) = len" and "set bs \<subseteq> set cs"
    by auto
qed

lemma generateRandomBytes_zero: "generateRandomBytes e k cs 0 = Inr (Inr [])"
  by (simp add: generateRandomBytes_def)

lemma count_in_append: "count_in cs (xs @ ys) = count_in cs xs + count_in cs ys"
  by (simp add: count_in_def)

lemma count_in_all: "set bs \<subseteq> set cs \<Longrightarrow> count_in cs bs = length bs"
  by (induction bs) (auto simp: count_in_def)

lemma count_in_mset: "mset xs = mset ys \<Longrightarrow> count_in cs xs = count_in cs ys"
proof -
  assume eq: "mset xs = mset ys"
  have "count_in cs xs = size (filter_mset (\<lambda>c. c \<in> set cs) (mset xs))"
    by (simp add: count_in_def flip: mset_filter)
  also have "\<dots> = size (filter_mset (\<lambda>c. c \<in> set cs) (mset ys))"
    by (simp add: eq)
  also have "\<dots> = count_in cs ys"
    by (simp add: count_in_def flip: mset_filter)
  finally show ?thesis .
qed

text \<open>The loop over the minimums.\<close>

lemma min_loop_Cons_Inr:
  assumes "min_loop e ((k0, v0) # kvs) r = Inr (Inr r')"
  obtains s where "generateRandomBytes e (length r) k0 (sint v0) = Inr (Inr s)"
    and "min_loop e kvs (r @ s) = Inr (Inr r')"
  using assms by (auto split: sum.splits)

lemma min_loop_mono:
  "min_loop e kvs r = Inr (Inr r') \<Longrightarrow> count_in cs r \<le> count_in cs r'"
proof (induction kvs arbitrary: r)
  case Nil
  then show ?case by simp
next
  case (Cons kv kvs)
  obtain k0 v0 where kv: "kv = (k0, v0)"
    by (cases kv)
  from Cons.prems obtain s where "min_loop e kvs (r @ s) = Inr (Inr r')"
    unfolding kv by (rule min_loop_Cons_Inr)
  from Cons.IH [OF this] show ?case
    by (simp add: count_in_append)
qed

lemma min_loop_count:
  "min_loop e kvs r = Inr (Inr r') \<Longrightarrow> (k, v) \<in> set kvs \<Longrightarrow>
     int (count_in k r) + sint v \<le> int (count_in k r')"
proof (induction kvs arbitrary: r)
  case Nil
  then show ?case by simp
next
  case (Cons kv kvs)
  obtain k0 v0 where kv: "kv = (k0, v0)"
    by (cases kv)
  from Cons.prems(1) obtain s where
    s: "generateRandomBytes e (length r) k0 (sint v0) = Inr (Inr s)"
    and rest: "min_loop e kvs (r @ s) = Inr (Inr r')"
    unfolding kv by (rule min_loop_Cons_Inr)
  show ?case
  proof (cases "(k, v) = kv")
    case True
    with kv s have "int (length s) = sint v" and "set s \<subseteq> set k"
      using generateRandomBytes_Inr(2,3) [OF s] by simp_all
    then have "int (count_in k (r @ s)) = int (count_in k r) + sint v"
      by (simp add: count_in_append count_in_all)
    with min_loop_mono [OF rest, of k] show ?thesis
      by simp
  next
    case False
    with Cons.prems(2) have "(k, v) \<in> set kvs"
      by auto
    from Cons.IH [OF rest this] show ?thesis
      by (simp add: count_in_append)
  qed
qed


lemma min_loop_set:
  "min_loop e kvs r = Inr (Inr r') \<Longrightarrow> c \<in> set r' \<Longrightarrow>
     c \<in> set r \<or> (\<exists>(k, v) \<in> set kvs. 0 < sint v \<and> c \<in> set k)"
proof (induction kvs arbitrary: r)
  case Nil
  then show ?case by simp
next
  case (Cons kv kvs)
  obtain k0 v0 where kv: "kv = (k0, v0)"
    by (cases kv)
  from Cons.prems(1) obtain s where
    s: "generateRandomBytes e (length r) k0 (sint v0) = Inr (Inr s)"
    and rest: "min_loop e kvs (r @ s) = Inr (Inr r')"
    unfolding kv by (rule min_loop_Cons_Inr)
  from Cons.IH [OF rest Cons.prems(2)] consider
    "c \<in> set r" | "c \<in> set s" | "\<exists>(k, v) \<in> set kvs. 0 < sint v \<and> c \<in> set k"
    by auto
  then show ?case
  proof cases
    case 1
    then show ?thesis by simp
  next
    case 2
    then have "s \<noteq> []" by auto
    with generateRandomBytes_Inr(2) [OF s] have "0 < sint v0"
      by (cases s) auto
    moreover from 2 generateRandomBytes_Inr(3) [OF s] have "c \<in> set k0"
      by auto
    ultimately show ?thesis
      by (simp add: kv)
  next
    case 3
    then show ?thesis by auto
  qed
qed

lemma min_loop_zero:
  "\<forall>(k, v) \<in> set kvs. v = 0 \<Longrightarrow> min_loop e kvs r = Inr (Inr r)"
  by (induction kvs arbitrary: r) (auto simp: generateRandomBytes_zero)

text \<open>Ranging over a map visits every entry once.\<close>

lemma mset_range_order: "mset (range_order ps xs) = mset xs"
proof (induction ps arbitrary: xs)
  case Nil
  then show ?case by simp
next
  case (Cons p ps)
  show ?case
  proof (cases "xs = []")
    case True
    then show ?thesis by simp
  next
    case False
    define i where "i = p mod length xs"
    from False have i: "i < length xs"
      by (simp add: i_def)
    have "mset xs = mset (take i xs @ xs ! i # drop (Suc i) xs)"
      using i by (simp add: Cons_nth_drop_Suc)
    also have "\<dots> = add_mset (xs ! i) (mset (take i xs @ drop (Suc i) xs))"
      by simp
    finally show ?thesis
      using False Cons.IH [of "take i xs @ drop (Suc i) xs"] by (simp add: i_def Let_def)
  qed
qed

lemma set_range_order: "set (range_order ps xs) = set xs"
  using mset_range_order [of ps xs] by (metis set_mset_mset)


text \<open>The reordering keeps the bytes.\<close>

lemma swap_all_mset: "swap_all ps xs = Inr ys \<Longrightarrow> mset ys = mset xs"
proof (induction ps arbitrary: xs)
  case Nil
  then show ?case by simp
next
  case (Cons p ps)
  obtain i j where p: "p = (i, j)"
    by (cases p)
  from Cons.prems p have i: "i < length xs" and j: "j < length xs"
    and rest: "swap_all ps (xs[i := xs ! j, j := xs ! i]) = Inr ys"
    by (auto split: if_splits)
  from Cons.IH [OF rest] mset_swap [OF j i] show ?case
    by simp
qed

lemma sort_Slice_mset: "sort_Slice e x lessf = Inr y \<Longrightarrow> mset y = mset x"
  by (simp add: sort_Slice_def swap_all_mset)

lemma insertion_inner_in_range:
  "j < n \<Longrightarrow> \<forall>(i, i') \<in> set (insertion_inner lessf a j). i < n \<and> i' < n"
  by (induction j) auto

lemma insertion_sorter_in_range: "sorter_in_range insertion_sorter"
  by (auto simp: sorter_in_range_def insertion_sorter_def insertionSort_func_def
      dest: insertion_inner_in_range [rule_format])

text \<open>The map of the minimums.\<close>

lemma set_map_literal: "set (map_literal es) \<subseteq> set es"
proof -
  have "set (fold (\<lambda>(k, v) m. AList.update k v m) es m) \<subseteq> set es \<union> set m" for m :: "('a \<times> 'b) list"
  proof (induction es arbitrary: m)
    case Nil
    then show ?case by simp
  next
    case (Cons kv es)
    obtain k v where kv: "kv = (k, v)"
      by (cases kv)
    have "set (AList.update k v m) \<subseteq> insert (k, v) (set m)"
      by (induction m) auto
    with Cons.IH [of "AList.update k v m"] show ?case
      by (auto simp: kv)
  qed
  from this [of "[]"] show ?thesis
    by (simp add: map_literal_def)
qed

lemma minMapping_distinct:
  assumes "special_distinct plan"
  shows "minMapping plan = minMapping_entries plan"
proof -
  have "numChars \<noteq> lowerChars" "numChars \<noteq> upperChars" "lowerChars \<noteq> upperChars"
    by (simp_all add: numChars_def lowerChars_def upperChars_def)
  with assms show ?thesis
    by (auto simp: special_distinct_def minMapping_def minMapping_entries_def map_literal_def)
qed

text \<open>The shape of a call of \<^verbatim>\<open>createString\<close> that returns.\<close>

lemma error_response_State: "State (error_response err) = None"
  by (cases err) (simp add: error_response_def)

lemma error_response_Diagnostics: "Diagnostics (error_response err) \<noteq> []"
  by (cases err) (simp add: error_response_def)

lemma createString_buffer:
  "createString e plan sensitive =
     (case buffer e plan of
        Inl p \<Rightarrow> Inl p
      | Inr (Inl err) \<Rightarrow> Inr (error_response err)
      | Inr (Inr b) \<Rightarrow>
          (case read_order e (length b) of
             Inl err \<Rightarrow> Inr (error_response err)
           | Inr order \<Rightarrow>
               (case sort_Slice e b (\<lambda>i j. order ! i < order ! j) of
                  Inl p \<Rightarrow> Inl p
                | Inr sorted_result \<Rightarrow>
                    Inr \<lparr>Diagnostics = [],
                         State = Some
                           (plan\<lparr>ID := (if sensitive then ''none'' else sorted_result),
                                 Result := sorted_result\<rparr>)\<rparr>)))"
  by (simp add: createString_def buffer_def split: sum.splits)

lemma createString_State:
  assumes "createString e plan sensitive = Inr resp" and "State resp = Some st"
  obtains b order where "buffer e plan = Inr (Inr b)"
    and "read_order e (length b) = Inr order"
    and "sort_Slice e b (\<lambda>i j. order ! i < order ! j) = Inr (Result st)"
    and "Diagnostics resp = []"
  using assms unfolding createString_buffer
  by (auto split: sum.splits simp: error_response_State)

lemma createString_no_State:
  assumes "createString e plan sensitive = Inr resp" and "State resp = None"
  shows "Diagnostics resp \<noteq> []"
  using assms unfolding createString_buffer
  by (auto split: sum.splits simp: error_response_Diagnostics)

lemma buffer_Inr:
  assumes "buffer e plan = Inr (Inr b)"
  obtains r s where
    "min_loop e (range_order (range_picks e) (minMapping plan)) [] = Inr (Inr r)"
    and "generateRandomBytes e (length r) (chars plan) (sint (Length plan) - int (length r))
           = Inr (Inr s)"
    and "b = r @ s"
  using assms by (auto simp: buffer_def split: sum.splits if_splits)

lemma buffer_length:
  assumes "buffer e plan = Inr (Inr b)"
  shows "int (length b) = sint (Length plan)"
proof -
  from assms obtain r s where
    s: "generateRandomBytes e (length r) (chars plan) (sint (Length plan) - int (length r))
           = Inr (Inr s)"
    and b: "b = r @ s"
    by (rule buffer_Inr)
  from generateRandomBytes_Inr(2) [OF s] b show ?thesis
    by simp
qed


text \<open>Bytes of a character set that shares no byte with another lie outside the other.\<close>

lemma count_in_le_outside:
  "set k \<inter> set pool = {} \<Longrightarrow> count_in k s \<le> count_outside pool s"
  by (induction s) (auto simp: count_in_def count_outside_def)

text \<open>A panic while the buffer is filled is a panic of the call.\<close>

lemma createString_Inl:
  "buffer e plan = Inl p \<Longrightarrow> createString e plan sensitive = Inl p"
  by (simp add: createString_buffer)

text \<open>
  The draws for a minimum stay in the result, when no other entry of the literal has
  the same key.
\<close>

lemma createString_minimum:
  assumes run: "createString e plan sensitive = Inr resp" and st: "State resp = Some st"
    and distinct: "special_distinct plan"
    and kv: "(k, v) \<in> set (minMapping_entries plan)"
  shows "sint v \<le> int (count_in k (Result st))"
proof -
  from run st obtain b order where b: "buffer e plan = Inr (Inr b)"
    and "read_order e (length b) = Inr order"
    and sorted: "sort_Slice e b (\<lambda>i j. order ! i < order ! j) = Inr (Result st)"
    and "Diagnostics resp = []"
    by (rule createString_State)
  from b obtain r s where
    r: "min_loop e (range_order (range_picks e) (minMapping plan)) [] = Inr (Inr r)"
    and "generateRandomBytes e (length r) (chars plan) (sint (Length plan) - int (length r))
           = Inr (Inr s)"
    and rs: "b = r @ s"
    by (rule buffer_Inr)
  from kv have "(k, v) \<in> set (range_order (range_picks e) (minMapping plan))"
    by (simp only: set_range_order minMapping_distinct [OF distinct])
  from min_loop_count [OF r this] have "sint v \<le> int (count_in k r)"
    by (simp add: count_in_def)
  moreover have "count_in k r \<le> count_in k b"
    by (simp add: rs count_in_append)
  moreover have "count_in k (Result st) = count_in k b"
    using sort_Slice_mset [OF sorted] by (rule count_in_mset)
  ultimately show ?thesis
    by linarith
qed

section \<open>The length of the result\<close>

text \<open>
  C2: a call of \<^verbatim>\<open>createString\<close> that returns has either set a state, with no
  diagnostic and a result of exactly \<open>Length\<close> bytes, or set no state at all and added
  an error diagnostic. This holds for every plan, every outcome of the random source,
  every order of the map and every sorter.
\<close>

theorem createString_exact_length:
  assumes "createString e plan sensitive = Inr resp"
  shows "case State resp of
           None \<Rightarrow> Diagnostics resp \<noteq> []
         | Some st \<Rightarrow> Diagnostics resp = [] \<and> int (length (Result st)) = sint (Length plan)"
proof (cases "State resp")
  case None
  with createString_no_State [OF assms] show ?thesis
    by simp
next
  case (Some st)
  from assms Some obtain b order where b: "buffer e plan = Inr (Inr b)"
    and "read_order e (length b) = Inr order"
    and sorted: "sort_Slice e b (\<lambda>i j. order ! i < order ! j) = Inr (Result st)"
    and diags: "Diagnostics resp = []"
    by (rule createString_State)
  from sort_Slice_mset [OF sorted] have "length (Result st) = length b"
    by (rule mset_eq_length)
  with buffer_length [OF b] diags Some show ?thesis
    by simp
qed

text \<open>The default plan with a random source that always answers 0 gives \<^verbatim>\<open>AAAA\<close>.\<close>

theorem createString_exact_length_witness:
  "createString env_first plan_default False =
     Inr \<lparr>Diagnostics = [], State = Some (plan_default\<lparr>ID := ''AAAA'', Result := ''AAAA''\<rparr>)\<rparr>
   \<and> int (length ''AAAA'') = sint (Length plan_default)"
proof -
  have run: "createString env_first plan_default False =
     Inr \<lparr>Diagnostics = [], State = Some (plan_default\<lparr>ID := ''AAAA'', Result := ''AAAA''\<rparr>)\<rparr>"
    by code_simp
  from createString_exact_length [OF run] run show ?thesis
    by simp
qed

section \<open>A length below the sum of the minimums\<close>




section \<open>The minimum of a class whose characters are also the special characters\<close>

text \<open>
  C1 fails on the code when the override of the special characters is one of the
  built-in sets. The plan asks for at least 3 digits in a string of length 4, with upper
  case, digits and special characters on and the digits as special characters. Length
  and minimums pass both validators. In \<^verbatim>\<open>minMapping\<close> the entry of the special
  characters has the key of the digits and replaces their minimum by 0, so no digit is
  drawn for the minimum; with a random source that always answers 0 the result is
  \<^verbatim>\<open>AAAA\<close>, which has no digit.
\<close>

theorem collision_drops_minimum:
  "Number plan_collision \<and> sint (MinNumeric plan_collision) = 3
   \<and> sum_minimums plan_collision \<le> sint (Length plan_collision)
   \<and> chars plan_collision \<noteq> []
   \<and> lengthValidator_Validate (Length plan_collision) = []
   \<and> validateLength plan_collision = []
   \<and> minMapping plan_collision = [(numChars, 0), (lowerChars, 0), (upperChars, 0)]
   \<and> generated (createString env_first plan_collision False) = Some ''AAAA''
   \<and> count_in numChars ''AAAA'' = 0"
  by code_simp

section \<open>No class switched on\<close>

text \<open>
  C5 fails on the code: with the four classes off, the four minimums 0 and a positive
  length, both validators accept the plan and \<^verbatim>\<open>createString\<close> panics in
  \<^verbatim>\<open>rand.Int\<close>, called with the length 0 of the empty character set; no diagnostic
  is added.
\<close>

theorem empty_pool_panics:
  assumes "\<not> Upper plan" and "\<not> Lower plan" and "\<not> Number plan" and "\<not> Special plan"
    and "MinUpper plan = 0" and "MinLower plan = 0" and "MinNumeric plan = 0"
    and "MinSpecial plan = 0" and "0 < sint (Length plan)"
  shows "lengthValidator_Validate (Length plan) = [] \<and> validateLength plan = []
         \<and> createString e plan sensitive = Inl Rand_Int_argument_not_positive"
proof -
  have zero: "\<forall>(k, v) \<in> set (range_order (range_picks e) (minMapping plan)). v = 0"
    using set_map_literal [of "minMapping_entries plan"] assms(5-8)
    by (auto simp: set_range_order minMapping_def minMapping_entries_def)
  from assms(1-4) have pool: "chars plan = []"
    by (simp add: chars_def)
  from assms(9) obtain n where n: "nat (sint (Length plan)) = Suc n"
    by (cases "nat (sint (Length plan))") auto
  from assms(9) n have "buffer e plan = Inl Rand_Int_argument_not_positive"
    by (simp add: buffer_def min_loop_zero [OF zero] pool generateRandomBytes_def)
  then have "createString e plan sensitive = Inl Rand_Int_argument_not_positive"
    by (rule createString_Inl)
  moreover from assms(9) have "lengthValidator_Validate (Length plan) = []"
    by (simp add: lengthValidator_Validate_def)
  moreover from assms(5-9) have "validateLength plan = []"
    by (simp add: validateLength_def)
  ultimately show ?thesis
    by simp
qed

text \<open>Every class off, length 1.\<close>

theorem empty_pool_panics_witness:
  "0 < sint (Length plan_no_class) \<and> chars plan_no_class = []
   \<and> lengthValidator_Validate (Length plan_no_class) = [] \<and> validateLength plan_no_class = []
   \<and> createString env_first plan_no_class False = Inl Rand_Int_argument_not_positive"
proof -
  have flags: "\<not> Upper plan_no_class" "\<not> Lower plan_no_class" "\<not> Number plan_no_class"
    "\<not> Special plan_no_class"
    and mins: "MinUpper plan_no_class = 0" "MinLower plan_no_class = 0"
    "MinNumeric plan_no_class = 0" "MinSpecial plan_no_class = 0"
    and len: "0 < sint (Length plan_no_class)"
    and pool: "chars plan_no_class = []"
    by code_simp+
  from empty_pool_panics [OF flags mins len, of env_first False] len pool show ?thesis
    by simp
qed

section \<open>The override of the special characters\<close>

text \<open>
  C6 as stated fails: with the special class on and the empty override, the result is
  drawn from the default special characters.
\<close>

theorem empty_override_keeps_default:
  "Special plan_special_only \<and> OverrideSpecial plan_special_only = []
   \<and> generated (createString env_first plan_special_only False) = Some ''!''"
  by code_simp

text \<open>
  C6, amended: an override that is not empty replaces the default special characters
  as it is, and the empty override leaves the default special characters in use. For
  every plan, the characters drawn from after the minimums hold, for the special class
  when it is on, the override, or the default special characters when the override is
  empty; and every byte of a result is a character of a class that is on or has a
  positive minimum, where the characters of the special class are the override, or the
  default ones when the override is empty.
\<close>

theorem override_special:
  assumes run: "createString e plan sensitive = Inr resp" and st: "State resp = Some st"
  shows "chars plan =
           (if Upper plan then upperChars else []) @
           (if Lower plan then lowerChars else []) @
           (if Number plan then numChars else []) @
           (if Special plan
            then (if OverrideSpecial plan = [] then defaultSpecialChars
                  else OverrideSpecial plan)
            else [])
         \<and> set (Result st) \<subseteq>
             set ((if Upper plan \<or> 0 < sint (MinUpper plan) then upperChars else []) @
                  (if Lower plan \<or> 0 < sint (MinLower plan) then lowerChars else []) @
                  (if Number plan \<or> 0 < sint (MinNumeric plan) then numChars else []) @
                  (if Special plan \<or> 0 < sint (MinSpecial plan)
                   then (if OverrideSpecial plan = [] then defaultSpecialChars
                         else OverrideSpecial plan)
                   else []))"
proof
  show "chars plan =
           (if Upper plan then upperChars else []) @
           (if Lower plan then lowerChars else []) @
           (if Number plan then numChars else []) @
           (if Special plan
            then (if OverrideSpecial plan = [] then defaultSpecialChars
                  else OverrideSpecial plan)
            else [])"
    by (simp add: chars_def specialChars_def)
next
  let ?special = "if OverrideSpecial plan = [] then defaultSpecialChars else OverrideSpecial plan"
  let ?allowed = "(if Upper plan \<or> 0 < sint (MinUpper plan) then upperChars else []) @
                  (if Lower plan \<or> 0 < sint (MinLower plan) then lowerChars else []) @
                  (if Number plan \<or> 0 < sint (MinNumeric plan) then numChars else []) @
                  (if Special plan \<or> 0 < sint (MinSpecial plan) then ?special else [])"
  have special: "specialChars plan = ?special"
    by (simp add: specialChars_def)
  from run st obtain b order where b: "buffer e plan = Inr (Inr b)"
    and "read_order e (length b) = Inr order"
    and sorted: "sort_Slice e b (\<lambda>i j. order ! i < order ! j) = Inr (Result st)"
    and "Diagnostics resp = []"
    by (rule createString_State)
  from b obtain r s where
    r: "min_loop e (range_order (range_picks e) (minMapping plan)) [] = Inr (Inr r)"
    and s: "generateRandomBytes e (length r) (chars plan)
              (sint (Length plan) - int (length r)) = Inr (Inr s)"
    and rs: "b = r @ s"
    by (rule buffer_Inr)
  have "set r \<subseteq> set ?allowed"
  proof
    fix c
    assume "c \<in> set r"
    from min_loop_set [OF r this] obtain k v where
      kv: "(k, v) \<in> set (minMapping plan)" and pos: "0 < sint v" and c: "c \<in> set k"
      by (auto simp: set_range_order)
    from kv set_map_literal [of "minMapping_entries plan"]
    have "(k, v) \<in> set (minMapping_entries plan)"
      by (auto simp: minMapping_def)
    then consider "k = numChars" "v = MinNumeric plan" | "k = lowerChars" "v = MinLower plan"
      | "k = upperChars" "v = MinUpper plan" | "k = specialChars plan" "v = MinSpecial plan"
      by (auto simp: minMapping_entries_def)
    then show "c \<in> set ?allowed"
    proof cases
      case 1 with pos c show ?thesis by simp
    next
      case 2 with pos c show ?thesis by simp
    next
      case 3 with pos c show ?thesis by simp
    next
      case 4 with pos c special show ?thesis by simp
    qed
  qed
  moreover have "set s \<subseteq> set ?allowed"
  proof
    fix c
    assume "c \<in> set s"
    with generateRandomBytes_Inr(3) [OF s] have "c \<in> set (chars plan)"
      by blast
    then show "c \<in> set ?allowed"
      by (auto simp: chars_def special split: if_splits)
  qed
  moreover from sort_Slice_mset [OF sorted] have "set (Result st) = set b"
    by (rule mset_eq_setD)
  ultimately show "set (Result st) \<subseteq> set ?allowed"
    using rs by simp
qed

text \<open>
  Every class on, the override \<^verbatim>\<open>xy\<close> and one special character asked for: the draw
  for the minimum takes \<^verbatim>\<open>x\<close> from the override.
\<close>

theorem override_special_witness:
  "createString env_first plan_override False =
     Inr \<lparr>Diagnostics = [], State = Some (plan_override\<lparr>ID := ''xA'', Result := ''xA''\<rparr>)\<rparr>
   \<and> OverrideSpecial plan_override = ''xy''
   \<and> chars plan_override = upperChars @ lowerChars @ numChars @ ''xy''
   \<and> set ''xA'' \<subseteq> set (upperChars @ lowerChars @ numChars @ ''xy'')"
proof -
  have run: "createString env_first plan_override False =
     Inr \<lparr>Diagnostics = [], State = Some (plan_override\<lparr>ID := ''xA'', Result := ''xA''\<rparr>)\<rparr>"
    by code_simp
  have st: "State \<lparr>Diagnostics = [],
      State = Some (plan_override\<lparr>ID := ''xA'', Result := ''xA''\<rparr>)\<rparr>
    = Some (plan_override\<lparr>ID := ''xA'', Result := ''xA''\<rparr>)"
    by simp
  have flags: "Special plan_override" "Upper plan_override" "Lower plan_override"
    "Number plan_override"
    and ov: "OverrideSpecial plan_override = ''xy''"
    by code_simp+
  from override_special [OF run st] flags ov run show ?thesis
    by simp
qed

section \<open>The reordering of the buffer\<close>

text \<open>
  C7 fails on the code. The buffer is \<^verbatim>\<open>012\<close> and the order keys drawn for its
  three bytes are 1, 2, 0. Reordered by ascending key, the byte with key 0 comes first:
  \<^verbatim>\<open>201\<close>. The comparison of the code reads the keys of two positions, and
  \<^verbatim>\<open>sort.Slice\<close> swaps the bytes of the buffer but not the keys, so the keys no
  longer belong to the bytes they are compared for: only the last two bytes change
  places, and the result is \<^verbatim>\<open>021\<close>.
\<close>

theorem reorder_not_by_key:
  "buffer env_count plan_digits = Inr (Inr ''012'')
   \<and> read_order env_count 3 = Inr [1, 2, 0]
   \<and> generated (createString env_count plan_digits False) = Some ''021''
   \<and> stable_reorder_by_key [1, 2, 0] ''012'' = ''201''"
  by code_simp

section \<open>Length 0\<close>

text \<open>
  C9 as stated fails: the validator of \<open>length\<close> rejects 0 with an error diagnostic.
\<close>

theorem length_zero_rejected:
  "lengthValidator_Validate (Length plan_empty) =
     [Error_diag ''expected length to be at least 1, got 0''
                 ''expected length to be at least 1, got 0'']"
  by code_simp

text \<open>
  C9, amended: \<^verbatim>\<open>createString\<close> called with length 0 and the four minimums 0
  returns the empty string with no diagnostic, whatever the classes, the override and
  the random source (the sorter swapping only inside the slice); the validator of
  \<open>length\<close> however rejects the length 0, as it does every length below 1.
\<close>

theorem createString_length_zero:
  assumes "Length plan = 0"
    and "MinUpper plan = 0" and "MinLower plan = 0" and "MinNumeric plan = 0"
    and "MinSpecial plan = 0"
    and "sorter_in_range (sort_swaps e)"
  shows "createString e plan sensitive =
           Inr \<lparr>Diagnostics = [],
                State = Some (plan\<lparr>ID := (if sensitive then ''none'' else []), Result := []\<rparr>)\<rparr>
         \<and> lengthValidator_Validate (Length plan) \<noteq> []"
proof -
  have zero: "\<forall>(k, v) \<in> set (range_order (range_picks e) (minMapping plan)). v = 0"
    using set_map_literal [of "minMapping_entries plan"] assms(2-5)
    by (auto simp: set_range_order minMapping_def minMapping_entries_def)
  from assms(1) have b: "buffer e plan = Inr (Inr [])"
    by (simp add: buffer_def min_loop_zero [OF zero] generateRandomBytes_zero)
  have "sort_swaps e 0 lessf = []" for lessf
  proof -
    from assms(6) have "\<forall>(i, j) \<in> set (sort_swaps e 0 lessf). i < 0 \<and> j < 0"
      unfolding sorter_in_range_def by blast
    then show ?thesis
      by (cases "sort_swaps e 0 lessf") auto
  qed
  then have "sort_Slice e ([] :: string) lessf = Inr []" for lessf
    by (simp add: sort_Slice_def)
  with b have "createString e plan sensitive =
           Inr \<lparr>Diagnostics = [],
                State = Some (plan\<lparr>ID := (if sensitive then ''none'' else []), Result := []\<rparr>)\<rparr>"
    by (simp add: createString_buffer read_order_def)
  moreover from assms(1) have "lengthValidator_Validate (Length plan) \<noteq> []"
    by (simp add: lengthValidator_Validate_def)
  ultimately show ?thesis
    by simp
qed

text \<open>The default plan with length 0, as a password.\<close>

theorem createString_length_zero_witness:
  "sorter_in_range (sort_swaps env_first)
   \<and> createString env_first plan_empty True =
       Inr \<lparr>Diagnostics = [], State = Some (plan_empty\<lparr>ID := ''none'', Result := []\<rparr>)\<rparr>
   \<and> lengthValidator_Validate (Length plan_empty) \<noteq> []"
proof -
  have len: "Length plan_empty = 0"
    and mins: "MinUpper plan_empty = 0" "MinLower plan_empty = 0" "MinNumeric plan_empty = 0"
    "MinSpecial plan_empty = 0"
    by code_simp+
  have sorter: "sorter_in_range (sort_swaps env_first)"
    by (simp add: env_first_def insertion_sorter_in_range)
  from createString_length_zero [OF len mins sorter, of True] sorter show ?thesis
    by simp
qed

section \<open>The minimum of a class that is switched off\<close>

text \<open>
  C10 as stated fails: with upper case off, its minimum 1 and the override \<^verbatim>\<open>A\<close> of
  the special characters, the byte drawn for the minimum of upper case is \<^verbatim>\<open>A\<close>,
  which is among the characters of the classes switched on; the result has no byte
  outside them.
\<close>

theorem minimum_draw_inside_pool:
  "\<not> Upper plan_overlap \<and> sint (MinUpper plan_overlap) = 1
   \<and> chars plan_overlap = ''A''
   \<and> generated (createString env_first plan_overlap False) = Some ''A''
   \<and> count_outside (chars plan_overlap) ''A'' = 0"
  by code_simp

text \<open>
  C10, amended: the draws for the minimums are made for the four entries of
  \<^verbatim>\<open>minMapping\<close> whatever the flags of the classes. When the special characters in
  use are none of the built-in sets and the call sets a result, the result has at least
  \<open>m\<close> bytes of the character set of every class with minimum \<open>m\<close>, switched on or
  off; they lie outside the characters of the classes switched on when the character
  set of the class has no byte among those.
\<close>

theorem minimums_drawn_regardless:
  assumes run: "createString e plan sensitive = Inr resp" and st: "State resp = Some st"
    and distinct: "special_distinct plan"
  shows "\<forall>(k, v) \<in> set (minMapping_entries plan).
           sint v \<le> int (count_in k (Result st))
           \<and> ((\<forall>c \<in> set k. c \<notin> set (chars plan))
                \<longrightarrow> sint v \<le> int (count_outside (chars plan) (Result st)))"
proof (intro ballI, clarify, intro conjI impI)
  fix k v
  assume kv: "(k, v) \<in> set (minMapping_entries plan)"
  from createString_minimum [OF run st distinct kv]
  show inside: "sint v \<le> int (count_in k (Result st))" .
  assume "\<forall>c \<in> set k. c \<notin> set (chars plan)"
  then have "set k \<inter> set (chars plan) = {}"
    by blast
  from inside count_in_le_outside [OF this, of "Result st"]
  show "sint v \<le> int (count_outside (chars plan) (Result st))"
    by linarith
qed

text \<open>Upper case off with minimum 2, lower case on, length 3.\<close>

theorem minimums_drawn_regardless_witness:
  "createString env_first plan_disabled_upper False =
     Inr \<lparr>Diagnostics = [],
          State = Some (plan_disabled_upper\<lparr>ID := ''AAa'', Result := ''AAa''\<rparr>)\<rparr>
   \<and> special_distinct plan_disabled_upper
   \<and> \<not> Upper plan_disabled_upper \<and> sint (MinUpper plan_disabled_upper) = 2
   \<and> count_in upperChars (chars plan_disabled_upper) = 0
   \<and> 2 \<le> int (count_in upperChars ''AAa'')
   \<and> 2 \<le> int (count_outside (chars plan_disabled_upper) ''AAa'')"
proof -
  have run: "createString env_first plan_disabled_upper False =
     Inr \<lparr>Diagnostics = [],
          State = Some (plan_disabled_upper\<lparr>ID := ''AAa'', Result := ''AAa''\<rparr>)\<rparr>"
    by code_simp
  have st: "State \<lparr>Diagnostics = [],
      State = Some (plan_disabled_upper\<lparr>ID := ''AAa'', Result := ''AAa''\<rparr>)\<rparr>
    = Some (plan_disabled_upper\<lparr>ID := ''AAa'', Result := ''AAa''\<rparr>)"
    by simp
  have distinct: "special_distinct plan_disabled_upper"
    and off: "\<not> Upper plan_disabled_upper" and m: "sint (MinUpper plan_disabled_upper) = 2"
    and disjoint: "\<forall>c \<in> set upperChars. c \<notin> set (chars plan_disabled_upper)"
    and none: "count_in upperChars (chars plan_disabled_upper) = 0"
    by code_simp+
  have entry: "(upperChars, MinUpper plan_disabled_upper)
      \<in> set (minMapping_entries plan_disabled_upper)"
    by (simp add: minMapping_entries_def)
  from minimums_drawn_regardless [OF run st distinct, rule_format, OF entry]
    run distinct off m disjoint none
  show ?thesis
    by simp
qed

end
